theory Spec2Isabelle
  imports Complex_Main
begin

section \<open>The slider component of \<open>src/lib/Slider.tsx\<close>\<close>

text \<open>
  The component keeps its mutable data in React refs and one piece of React state
  (\<open>dimensions\<close>). The model is a record of these, passed through every handler.
  JavaScript numbers are modelled by \<open>int\<close> (pixel coordinates, widths and indices; the
  arithmetic of the component is addition, subtraction, negation and one product, which
  are exact on integers of this size). The value \<open>null\<close> of \<open>number | null\<close> is
  \<open>None\<close>; where the source does arithmetic or an ordering comparison on a possibly
  null index (behind the non-null assertion \<open>!\<close>, which is erased at run time),
  JavaScript converts \<open>null\<close> to \<open>0\<close>, written out as \<open>toNumber\<close>.
\<close>

subsection \<open>Data\<close>

datatype css_transition = Transition_unset | Transition_none | Transform_ease_out rat

datatype css_cursor = Cursor_unset | Grab | Grabbing

text \<open>The style of the \<open>div\<close> behind \<open>sliderRef\<close>; \<open>Some t\<close> is \<open>translateX(t px)\<close>.\<close>

record element =
  style_transition :: css_transition
  style_cursor :: css_cursor
  style_transform :: "int option"

record dims =
  width :: int
  height :: int

text \<open>
  The two optional callbacks belong to the host. The model records that a callback is
  supplied and logs each invocation with its argument.
\<close>

datatype callback = SlideStart "int option" | SlideComplete "int option"

record props =
  children_length :: nat
  onSlideComplete :: bool
  onSlideStart :: bool
  activeIndex :: "int option"
  threshHold :: int
  transition :: rat

datatype error = TypeError

record state =
  dimensions :: dims
  dragging :: bool
  startPos :: int
  currentTranslate :: int
  prevTranslate :: int
  currentIndex :: "int option"
  sliderRef :: "element option"
  animationRef :: "nat option"
  pendingFrames :: "nat list"
  nextHandle :: nat
  calls :: "callback list"

text \<open>The refs and the state as \<open>useRef\<close> and \<open>useState\<close> initialise them.\<close>

definition initial :: "element option \<Rightarrow> state" where
  "initial el =
     \<lparr>dimensions = \<lparr>width = 0, height = 0\<rparr>, dragging = False, startPos = 0,
      currentTranslate = 0, prevTranslate = 0, currentIndex = Some 0, sliderRef = el,
      animationRef = None, pendingFrames = [], nextHandle = 1, calls = []\<rparr>"

definition default_props :: "nat \<Rightarrow> props" where
  "default_props n =
     \<lparr>children_length = n, onSlideComplete = False, onSlideStart = False,
      activeIndex = None, threshHold = 100, transition = 3 / 10\<rparr>"

definition toNumber :: "int option \<Rightarrow> int" where
  "toNumber v = (case v of None \<Rightarrow> 0 | Some n \<Rightarrow> n)"

subsection \<open>The browser's frame scheduler\<close>

text \<open>
  \<open>requestAnimationFrame\<close> hands out a fresh non-zero handle and queues the frame;
  \<open>cancelAnimationFrame\<close> removes a queued frame and ignores any other handle.
\<close>

definition requestAnimationFrame :: "state \<Rightarrow> nat \<times> state" where
  "requestAnimationFrame s =
     (nextHandle s,
      s\<lparr>pendingFrames := pendingFrames s @ [nextHandle s], nextHandle := nextHandle s + 1\<rparr>)"

definition cancelAnimationFrame :: "nat \<Rightarrow> state \<Rightarrow> state" where
  "cancelAnimationFrame h s = s\<lparr>pendingFrames := removeAll h (pendingFrames s)\<rparr>"

subsection \<open>Position\<close>

definition setSliderPosition :: "state \<Rightarrow> state" where
  "setSliderPosition s =
     (case sliderRef s of
        None \<Rightarrow> s
      | Some el \<Rightarrow> s\<lparr>sliderRef := Some (el\<lparr>style_transform := Some (currentTranslate s)\<rparr>)\<rparr>)"

definition setPositionByIndex :: "int \<Rightarrow> state \<Rightarrow> state" where
  "setPositionByIndex w s =
     (let s1 = s\<lparr>currentTranslate := toNumber (currentIndex s) * - w\<rparr>;
          s2 = s1\<lparr>prevTranslate := currentTranslate s1\<rparr>
      in setSliderPosition s2)"

text \<open>The call without an argument takes the default \<open>w = dimensions.width\<close>.\<close>

definition setPositionByIndex_default :: "state \<Rightarrow> state" where
  "setPositionByIndex_default s = setPositionByIndex (width (dimensions s)) s"

definition transitionOn :: "props \<Rightarrow> state \<Rightarrow> state" where
  "transitionOn p s =
     (case sliderRef s of
        None \<Rightarrow> s
      | Some el \<Rightarrow>
          s\<lparr>sliderRef := Some (el\<lparr>style_transition := Transform_ease_out (transition p)\<rparr>)\<rparr>)"

definition transitionOff :: "state \<Rightarrow> state" where
  "transitionOff s =
     (case sliderRef s of
        None \<Rightarrow> s
      | Some el \<Rightarrow> s\<lparr>sliderRef := Some (el\<lparr>style_transition := Transition_none\<rparr>)\<rparr>)"

subsection \<open>Effects\<close>

text \<open>
  \<open>setDimensions\<close> is modelled as an immediate write of the \<open>dimensions\<close> field: the
  render that follows it, and the fresh \<open>setPositionByIndex\<close> closure over the new
  width, are in place before the next event is handled.

  The effect that watches the \<open>activeIndex\<close> prop.
\<close>

definition activeIndex_effect :: "props \<Rightarrow> state \<Rightarrow> state" where
  "activeIndex_effect p s =
     (if activeIndex p \<noteq> currentIndex s
      then setPositionByIndex_default ((transitionOn p s)\<lparr>currentIndex := activeIndex p\<rparr>)
      else s)"

text \<open>
  The layout effect and the resize handler measure the element with
  \<open>getElementDimensions\<close> of \<open>../utils\<close>, which is taken as the parameter \<open>measured\<close>.
\<close>

definition layout_effect :: "dims \<Rightarrow> state \<Rightarrow> state" where
  "layout_effect measured s =
     (case sliderRef s of
        None \<Rightarrow> s
      | Some el \<Rightarrow> setPositionByIndex (width measured) (s\<lparr>dimensions := measured\<rparr>))"

definition handleResize :: "dims \<Rightarrow> state \<Rightarrow> state" where
  "handleResize measured s =
     (let s1 = transitionOff s
      in case sliderRef s1 of
           None \<Rightarrow> s1
         | Some el \<Rightarrow> setPositionByIndex (width measured) (s1\<lparr>dimensions := measured\<rparr>))"

subsection \<open>Keyboard\<close>

definition call_onSlideStart :: "props \<Rightarrow> state \<Rightarrow> state" where
  "call_onSlideStart p s =
     (if onSlideStart p then s\<lparr>calls := calls s @ [SlideStart (currentIndex s)]\<rparr> else s)"

definition call_onSlideComplete :: "props \<Rightarrow> state \<Rightarrow> state" where
  "call_onSlideComplete p s =
     (if onSlideComplete p then s\<lparr>calls := calls s @ [SlideComplete (currentIndex s)]\<rparr>
      else s)"

definition handleKeyDown :: "string \<Rightarrow> props \<Rightarrow> state \<Rightarrow> state" where
  "handleKeyDown key p s =
     (let arrowsPressed = (key = ''ArrowRight'' \<or> key = ''ArrowLeft'');
          s1 = (if arrowsPressed then transitionOn p s else s);
          s2 = (if arrowsPressed then call_onSlideStart p s1 else s1);
          s3 = (if key = ''ArrowRight''
                   \<and> toNumber (currentIndex s2) < int (children_length p) - 1
                then s2\<lparr>currentIndex := Some (toNumber (currentIndex s2) + 1)\<rparr> else s2);
          s4 = (if key = ''ArrowLeft'' \<and> toNumber (currentIndex s3) > 0
                then s3\<lparr>currentIndex := Some (toNumber (currentIndex s3) - 1)\<rparr> else s3);
          s5 = (if arrowsPressed then call_onSlideComplete p s4 else s4)
      in setPositionByIndex_default s5)"

subsection \<open>Pointer\<close>

text \<open>
  \<open>getPositionX\<close> of \<open>../utils\<close> reduces the event to its horizontal coordinate, the
  parameter \<open>x\<close> of \<open>touchStart\<close> and \<open>touchMove\<close>.
\<close>

definition touchStart :: "int \<Rightarrow> int \<Rightarrow> props \<Rightarrow> state \<Rightarrow> state" where
  "touchStart index x p s =
     (let s1 = transitionOn p s;
          s2 = s1\<lparr>currentIndex := Some index\<rparr>;
          s3 = s2\<lparr>startPos := x\<rparr>;
          s4 = s3\<lparr>dragging := True\<rparr>;
          (h, s5) = requestAnimationFrame s4;
          s6 = s5\<lparr>animationRef := Some h\<rparr>;
          s7 = (case sliderRef s6 of
                  None \<Rightarrow> s6
                | Some el \<Rightarrow> s6\<lparr>sliderRef := Some (el\<lparr>style_cursor := Grabbing\<rparr>)\<rparr>)
      in call_onSlideStart p s7)"

definition touchMove :: "int \<Rightarrow> state \<Rightarrow> state" where
  "touchMove x s =
     (if dragging s then s\<lparr>currentTranslate := prevTranslate s + x - startPos s\<rparr> else s)"

text \<open>
  \<open>touchEnd\<close> reads \<open>sliderRef.current!.style\<close> without a guard: on a null reference
  this raises a \<open>TypeError\<close>, after the refs have been written and before
  \<open>onSlideComplete\<close>. The result is the error, if any, and the state left behind.
\<close>

definition touchEnd :: "props \<Rightarrow> state \<Rightarrow> error option \<times> state" where
  "touchEnd p s =
     (let s1 = transitionOn p s;
          s2 = cancelAnimationFrame (case animationRef s1 of None \<Rightarrow> 0 | Some h \<Rightarrow> h) s1;
          s3 = s2\<lparr>dragging := False\<rparr>;
          movedBy = currentTranslate s3 - prevTranslate s3;
          s4 = (if movedBy < - threshHold p
                   \<and> toNumber (currentIndex s3) < int (children_length p) - 1
                then s3\<lparr>currentIndex := Some (toNumber (currentIndex s3) + 1)\<rparr> else s3);
          s5 = (if movedBy > threshHold p \<and> toNumber (currentIndex s4) > 0
                then s4\<lparr>currentIndex := Some (toNumber (currentIndex s4) - 1)\<rparr> else s4);
          s6 = transitionOn p s5;
          s7 = setPositionByIndex_default s6
      in case sliderRef s7 of
           None \<Rightarrow> (Some TypeError, s7)
         | Some el \<Rightarrow>
             (None,
              call_onSlideComplete p (s7\<lparr>sliderRef := Some (el\<lparr>style_cursor := Grab\<rparr>)\<rparr>)))"

text \<open>The \<open>onMouseLeave\<close> handler of a pane.\<close>

definition mouseLeave :: "props \<Rightarrow> state \<Rightarrow> error option \<times> state" where
  "mouseLeave p s = (if dragging s then touchEnd p s else (None, s))"

text \<open>The frame callback; the browser has taken its handle \<open>h\<close> off the queue.\<close>

definition animation :: "nat \<Rightarrow> state \<Rightarrow> state" where
  "animation h s =
     (let s1 = s\<lparr>pendingFrames := removeAll h (pendingFrames s)\<rparr>;
          s2 = setSliderPosition s1
      in if dragging s2 then snd (requestAnimationFrame s2) else s2)"

subsection \<open>Everything that can happen to a mounted slider\<close>

datatype event =
    ActiveIndexEffect
  | LayoutEffect dims
  | Resize dims
  | KeyDown string
  | TouchStart int int
  | TouchMove int
  | TouchEnd
  | MouseLeave
  | AnimationFrame nat

fun step :: "props \<Rightarrow> event \<Rightarrow> state \<Rightarrow> error option \<times> state" where
  "step p ActiveIndexEffect s = (None, activeIndex_effect p s)"
| "step p (LayoutEffect d) s = (None, layout_effect d s)"
| "step p (Resize d) s = (None, handleResize d s)"
| "step p (KeyDown key) s = (None, handleKeyDown key p s)"
| "step p (TouchStart index x) s = (None, touchStart index x p s)"
| "step p (TouchMove x) s = (None, touchMove x s)"
| "step p TouchEnd s = touchEnd p s"
| "step p MouseLeave s = mouseLeave p s"
| "step p (AnimationFrame h) s =
     (None, if h \<in> set (pendingFrames s) then animation h s else s)"

text \<open>
  A handler that throws ends there; the refs keep what it wrote and the next event is
  handled as usual. Props may change from one render to the next, so every event of a
  run comes with the props of its render.
\<close>

fun run :: "(props \<times> event) list \<Rightarrow> state \<Rightarrow> state" where
  "run [] s = s"
| "run ((p, e) # es) s = run es (snd (step p e s))"


subsection \<open>Auxiliary notions\<close>

text \<open>
  What the two consecutive \<open>if\<close> statements of \<open>touchEnd\<close> do to the index alone, and
  the state \<open>touchEnd\<close> has built when it reaches \<open>sliderRef.current!.style\<close>.
\<close>

definition snap_index :: "props \<Rightarrow> int \<Rightarrow> int option \<Rightarrow> int option" where
  "snap_index p movedBy i =
     (let i1 = (if movedBy < - threshHold p \<and> toNumber i < int (children_length p) - 1
                then Some (toNumber i + 1) else i)
      in if movedBy > threshHold p \<and> toNumber i1 > 0 then Some (toNumber i1 - 1) else i1)"

definition touchEnd_refs :: "props \<Rightarrow> state \<Rightarrow> state" where
  "touchEnd_refs p s =
     (let s1 = transitionOn p s;
          s2 = cancelAnimationFrame (case animationRef s1 of None \<Rightarrow> 0 | Some h \<Rightarrow> h) s1;
          s3 = s2\<lparr>dragging := False\<rparr>;
          movedBy = currentTranslate s3 - prevTranslate s3;
          s4 = (if movedBy < - threshHold p
                   \<and> toNumber (currentIndex s3) < int (children_length p) - 1
                then s3\<lparr>currentIndex := Some (toNumber (currentIndex s3) + 1)\<rparr> else s3);
          s5 = (if movedBy > threshHold p \<and> toNumber (currentIndex s4) > 0
                then s4\<lparr>currentIndex := Some (toNumber (currentIndex s4) - 1)\<rparr> else s4);
          s6 = transitionOn p s5
      in setPositionByIndex_default s6)"

text \<open>
  The specification describes the release decision as a function \<open>snapOnRelease\<close> with an
  \<open>else if\<close> between its two branches. This definition follows those words; the
  theorems below compare it with what \<open>touchEnd\<close> computes.
\<close>

definition snapOnRelease_spec :: "int \<Rightarrow> int \<Rightarrow> int \<Rightarrow> int \<Rightarrow> int" where
  "snapOnRelease_spec n index movedBy threshold =
     (if movedBy < - threshold \<and> index < n - 1 then index + 1
      else if movedBy > threshold \<and> index > 0 then index - 1
      else index)"

text \<open>
  \<open>positioned\<close>: both translates are the offset of the current index at the measured
  width. \<open>committed\<close>: this holds whenever no drag is open. \<open>rendered\<close>: an attached
  element shows the current translate.
\<close>

definition positioned :: "state \<Rightarrow> bool" where
  "positioned s \<longleftrightarrow>
     currentTranslate s = toNumber (currentIndex s) * - width (dimensions s)
     \<and> prevTranslate s = toNumber (currentIndex s) * - width (dimensions s)"

definition committed :: "state \<Rightarrow> bool" where
  "committed s \<longleftrightarrow> (\<not> dragging s \<longrightarrow> positioned s)"

definition rendered :: "state \<Rightarrow> bool" where
  "rendered s \<longleftrightarrow>
     (case sliderRef s of
        None \<Rightarrow> True
      | Some el \<Rightarrow> style_transform el = Some (currentTranslate s))"

subsection \<open>Concrete sliders\<close>

text \<open>
  The scenario of the specification: five panes, 300 pixels wide, both callbacks
  supplied, the host holding the active index at 1; the pointer goes down on pane 1 at
  \<open>x = 500\<close> and moves left by 150 pixels.
\<close>

definition el0 :: element where
  "el0 = \<lparr>style_transition = Transition_unset, style_cursor = Cursor_unset,
           style_transform = None\<rparr>"

definition scenario_props :: "int option \<Rightarrow> props" where
  "scenario_props a =
     (default_props 5)\<lparr>onSlideComplete := True, onSlideStart := True, activeIndex := a\<rparr>"

definition mounted :: "props \<Rightarrow> state" where
  "mounted p =
     run [(p, LayoutEffect \<lparr>width = 300, height = 200\<rparr>), (p, ActiveIndexEffect)]
       (initial (Some el0))"

definition mid_drag :: state where
  "mid_drag =
     run [(scenario_props (Some 1), TouchStart 1 500), (scenario_props (Some 1), TouchMove 350)]
       (mounted (scenario_props (Some 1)))"

definition released :: state where
  "released = snd (touchEnd (scenario_props (Some 1)) mid_drag)"

definition last_pane :: state where
  "last_pane = mounted (scenario_props (Some 4))"

text \<open>
  A slider without external control (\<open>activeIndex\<close> left at its default \<open>null\<close>), dragged
  from pane 0 to pane 1 and then resized to a width of 400.
\<close>

definition uncontrolled_resized :: state where
  "uncontrolled_resized =
     run [(default_props 5, TouchStart 0 500), (default_props 5, TouchMove 350),
          (default_props 5, TouchEnd), (default_props 5, Resize \<lparr>width = 400, height = 200\<rparr>)]
       (mounted (default_props 5))"

text \<open>A slider with a negative threshold, at rest on pane \<open>i\<close>.\<close>

definition negative_props :: props where
  "negative_props = (default_props 5)\<lparr>threshHold := - 5\<rparr>"

definition at_rest :: "int \<Rightarrow> state" where
  "at_rest i = mounted (negative_props\<lparr>activeIndex := Some i\<rparr>)"

section \<open>Field lemmas\<close>

lemma toNumber_simps [simp]: "toNumber None = 0" "toNumber (Some n) = n"
  by (simp_all add: toNumber_def)

lemma setSliderPosition_fields [simp]:
  "currentTranslate (setSliderPosition s) = currentTranslate s"
  "prevTranslate (setSliderPosition s) = prevTranslate s"
  "currentIndex (setSliderPosition s) = currentIndex s"
  "dragging (setSliderPosition s) = dragging s"
  "dimensions (setSliderPosition s) = dimensions s"
  "calls (setSliderPosition s) = calls s"
  by (simp_all add: setSliderPosition_def split: option.split)

lemma setSliderPosition_rendered [simp]: "rendered (setSliderPosition s)"
  by (simp add: rendered_def setSliderPosition_def split: option.split)

lemma setSliderPosition_id: "rendered s \<Longrightarrow> setSliderPosition s = s"
  by (auto simp add: rendered_def setSliderPosition_def split: option.splits)

lemma setPositionByIndex_fields [simp]:
  "currentTranslate (setPositionByIndex w s) = toNumber (currentIndex s) * - w"
  "prevTranslate (setPositionByIndex w s) = toNumber (currentIndex s) * - w"
  "currentIndex (setPositionByIndex w s) = currentIndex s"
  "dragging (setPositionByIndex w s) = dragging s"
  "dimensions (setPositionByIndex w s) = dimensions s"
  "calls (setPositionByIndex w s) = calls s"
  by (simp_all add: setPositionByIndex_def Let_def)

lemma setPositionByIndex_rendered [simp]: "rendered (setPositionByIndex w s)"
  by (simp add: setPositionByIndex_def Let_def)

lemma setPositionByIndex_twice:
  "setPositionByIndex w (setPositionByIndex w s) = setPositionByIndex w s"
  by (simp add: setPositionByIndex_def setSliderPosition_def Let_def split: option.split)

lemma setPositionByIndex_default_fields [simp]:
  "currentTranslate (setPositionByIndex_default s)
     = toNumber (currentIndex s) * - width (dimensions s)"
  "prevTranslate (setPositionByIndex_default s)
     = toNumber (currentIndex s) * - width (dimensions s)"
  "currentIndex (setPositionByIndex_default s) = currentIndex s"
  "dragging (setPositionByIndex_default s) = dragging s"
  "dimensions (setPositionByIndex_default s) = dimensions s"
  "calls (setPositionByIndex_default s) = calls s"
  "rendered (setPositionByIndex_default s)"
  by (simp_all add: setPositionByIndex_default_def)

lemma setPositionByIndex_default_id:
  assumes "positioned s" and "rendered s"
  shows "setPositionByIndex_default s = s"
proof -
  let ?t = "- (toNumber (currentIndex s) * width (dimensions s))"
  from assms(1) have ct: "currentTranslate s = ?t" and pt: "prevTranslate s = ?t"
    by (simp_all add: positioned_def)
  have "s\<lparr>currentTranslate := currentTranslate s, prevTranslate := prevTranslate s\<rparr> = s"
    by simp
  then have same: "s\<lparr>currentTranslate := ?t, prevTranslate := ?t\<rparr> = s"
    by (metis ct pt)
  have "setPositionByIndex_default s
          = setSliderPosition (s\<lparr>currentTranslate := ?t, prevTranslate := ?t\<rparr>)"
    by (simp add: setPositionByIndex_default_def setPositionByIndex_def Let_def)
  also have "\<dots> = setSliderPosition s"
    by (simp only: same)
  also have "\<dots> = s"
    using assms(2) by (rule setSliderPosition_id)
  finally show ?thesis .
qed

lemma transitionOn_fields [simp]:
  "currentTranslate (transitionOn p s) = currentTranslate s"
  "prevTranslate (transitionOn p s) = prevTranslate s"
  "currentIndex (transitionOn p s) = currentIndex s"
  "dragging (transitionOn p s) = dragging s"
  "dimensions (transitionOn p s) = dimensions s"
  "calls (transitionOn p s) = calls s"
  "animationRef (transitionOn p s) = animationRef s"
  by (simp_all add: transitionOn_def split: option.split)

lemma transitionOff_fields [simp]:
  "currentTranslate (transitionOff s) = currentTranslate s"
  "prevTranslate (transitionOff s) = prevTranslate s"
  "currentIndex (transitionOff s) = currentIndex s"
  "dragging (transitionOff s) = dragging s"
  "dimensions (transitionOff s) = dimensions s"
  "calls (transitionOff s) = calls s"
  by (simp_all add: transitionOff_def split: option.split)

lemma call_onSlideStart_fields [simp]:
  "currentTranslate (call_onSlideStart p s) = currentTranslate s"
  "prevTranslate (call_onSlideStart p s) = prevTranslate s"
  "currentIndex (call_onSlideStart p s) = currentIndex s"
  "dragging (call_onSlideStart p s) = dragging s"
  "dimensions (call_onSlideStart p s) = dimensions s"
  "sliderRef (call_onSlideStart p s) = sliderRef s"
  by (simp_all add: call_onSlideStart_def)

lemma call_onSlideComplete_fields [simp]:
  "currentTranslate (call_onSlideComplete p s) = currentTranslate s"
  "prevTranslate (call_onSlideComplete p s) = prevTranslate s"
  "currentIndex (call_onSlideComplete p s) = currentIndex s"
  "dragging (call_onSlideComplete p s) = dragging s"
  "dimensions (call_onSlideComplete p s) = dimensions s"
  "sliderRef (call_onSlideComplete p s) = sliderRef s"
  by (simp_all add: call_onSlideComplete_def)

section \<open>Release of a drag\<close>

lemma touchEnd_unfold:
  "touchEnd p s =
     (case sliderRef (touchEnd_refs p s) of
        None \<Rightarrow> (Some TypeError, touchEnd_refs p s)
      | Some el \<Rightarrow>
          (None,
           call_onSlideComplete p
             ((touchEnd_refs p s)\<lparr>sliderRef := Some (el\<lparr>style_cursor := Grab\<rparr>)\<rparr>)))"
  by (simp only: touchEnd_def touchEnd_refs_def Let_def)

lemma touchEnd_refs_fields [simp]:
  "currentIndex (touchEnd_refs p s)
     = snap_index p (currentTranslate s - prevTranslate s) (currentIndex s)"
  "currentTranslate (touchEnd_refs p s)
     = toNumber (snap_index p (currentTranslate s - prevTranslate s) (currentIndex s))
         * - width (dimensions s)"
  "prevTranslate (touchEnd_refs p s)
     = toNumber (snap_index p (currentTranslate s - prevTranslate s) (currentIndex s))
         * - width (dimensions s)"
  "dragging (touchEnd_refs p s) = False"
  "dimensions (touchEnd_refs p s) = dimensions s"
  "calls (touchEnd_refs p s) = calls s"
  by (auto simp add: touchEnd_refs_def snap_index_def Let_def cancelAnimationFrame_def)

lemma touchEnd_fields:
  "currentIndex (snd (touchEnd p s))
     = snap_index p (currentTranslate s - prevTranslate s) (currentIndex s)"
  "currentTranslate (snd (touchEnd p s))
     = toNumber (snap_index p (currentTranslate s - prevTranslate s) (currentIndex s))
         * - width (dimensions s)"
  "prevTranslate (snd (touchEnd p s))
     = toNumber (snap_index p (currentTranslate s - prevTranslate s) (currentIndex s))
         * - width (dimensions s)"
  "dragging (snd (touchEnd p s)) = False"
  "dimensions (snd (touchEnd p s)) = dimensions s"
  by (simp_all add: touchEnd_unfold split: option.split)

lemma sliderRef_None_iff [simp]:
  "sliderRef (transitionOn p s) = None \<longleftrightarrow> sliderRef s = None"
  "sliderRef (transitionOff s) = None \<longleftrightarrow> sliderRef s = None"
  "sliderRef (setSliderPosition s) = None \<longleftrightarrow> sliderRef s = None"
  "sliderRef (setPositionByIndex w s) = None \<longleftrightarrow> sliderRef s = None"
  "sliderRef (setPositionByIndex_default s) = None \<longleftrightarrow> sliderRef s = None"
  by (simp_all add: transitionOn_def transitionOff_def setSliderPosition_def
        setPositionByIndex_def setPositionByIndex_default_def Let_def split: option.split)

lemma sliderRef_touchEnd_refs [simp]:
  "sliderRef (touchEnd_refs p s) = None \<longleftrightarrow> sliderRef s = None"
  by (simp add: touchEnd_refs_def Let_def cancelAnimationFrame_def)

lemma touchEnd_calls:
  assumes "sliderRef s \<noteq> None"
  shows "fst (touchEnd p s) = None"
    and "calls (snd (touchEnd p s))
           = calls s @ (if onSlideComplete p
                        then [SlideComplete (currentIndex (snd (touchEnd p s)))] else [])"
proof -
  from assms obtain el where el: "sliderRef (touchEnd_refs p s) = Some el"
    by (cases "sliderRef (touchEnd_refs p s)") simp_all
  show "fst (touchEnd p s) = None"
    by (simp add: touchEnd_unfold el)
  show "calls (snd (touchEnd p s))
          = calls s @ (if onSlideComplete p
                       then [SlideComplete (currentIndex (snd (touchEnd p s)))] else [])"
    by (simp add: touchEnd_unfold el call_onSlideComplete_def)
qed

lemma snap_index_spec:
  "0 \<le> threshHold p \<Longrightarrow>
   snap_index p m (Some i)
     = Some (snapOnRelease_spec (int (children_length p)) i m (threshHold p))"
  by (simp add: snap_index_def snapOnRelease_spec_def Let_def)

lemma snap_index_near:
  "snap_index p m (Some i) = Some i \<or> snap_index p m (Some i) = Some (i + 1)
   \<or> snap_index p m (Some i) = Some (i - 1)"
  by (simp add: snap_index_def Let_def)

lemma snap_index_range:
  "0 \<le> i \<Longrightarrow> i \<le> int (children_length p) - 1 \<Longrightarrow>
   0 \<le> toNumber (snap_index p m (Some i))
   \<and> toNumber (snap_index p m (Some i)) \<le> int (children_length p) - 1"
  by (simp add: snap_index_def Let_def)

section \<open>The concrete sliders, evaluated\<close>

lemmas slider_defs =
  initial_def default_props_def requestAnimationFrame_def cancelAnimationFrame_def
  setSliderPosition_def setPositionByIndex_def setPositionByIndex_default_def transitionOn_def
  transitionOff_def activeIndex_effect_def layout_effect_def handleResize_def
  call_onSlideStart_def call_onSlideComplete_def handleKeyDown_def touchStart_def touchMove_def
  touchEnd_def mouseLeave_def animation_def el0_def scenario_props_def mounted_def Let_def

lemma mid_drag_eval:
  "mid_drag =
     \<lparr>dimensions = \<lparr>width = 300, height = 200\<rparr>, dragging = True, startPos = 500,
      currentTranslate = - 450, prevTranslate = - 300, currentIndex = Some 1,
      sliderRef = Some \<lparr>style_transition = Transform_ease_out (3 / 10),
                         style_cursor = Grabbing, style_transform = Some (- 300)\<rparr>,
      animationRef = Some 1, pendingFrames = [1], nextHandle = 2,
      calls = [SlideStart (Some 1)]\<rparr>"
  by (simp add: mid_drag_def slider_defs)

lemma released_eval:
  "released =
     \<lparr>dimensions = \<lparr>width = 300, height = 200\<rparr>, dragging = False, startPos = 500,
      currentTranslate = - 600, prevTranslate = - 600, currentIndex = Some 2,
      sliderRef = Some \<lparr>style_transition = Transform_ease_out (3 / 10),
                         style_cursor = Grab, style_transform = Some (- 600)\<rparr>,
      animationRef = Some 1, pendingFrames = [], nextHandle = 2,
      calls = [SlideStart (Some 1), SlideComplete (Some 2)]\<rparr>"
  by (simp add: released_def mid_drag_eval slider_defs)

lemma last_pane_eval:
  "last_pane =
     \<lparr>dimensions = \<lparr>width = 300, height = 200\<rparr>, dragging = False, startPos = 0,
      currentTranslate = - 1200, prevTranslate = - 1200, currentIndex = Some 4,
      sliderRef = Some \<lparr>style_transition = Transform_ease_out (3 / 10),
                         style_cursor = Cursor_unset, style_transform = Some (- 1200)\<rparr>,
      animationRef = None, pendingFrames = [], nextHandle = 1, calls = []\<rparr>"
  by (simp add: last_pane_def slider_defs)

lemma uncontrolled_resized_eval:
  "uncontrolled_resized =
     \<lparr>dimensions = \<lparr>width = 400, height = 200\<rparr>, dragging = False, startPos = 500,
      currentTranslate = - 400, prevTranslate = - 400, currentIndex = Some 1,
      sliderRef = Some \<lparr>style_transition = Transition_none,
                         style_cursor = Grab, style_transform = Some (- 400)\<rparr>,
      animationRef = Some 1, pendingFrames = [], nextHandle = 2, calls = []\<rparr>"
  by (simp add: uncontrolled_resized_def slider_defs)

lemma at_rest_eval:
  "at_rest i =
     \<lparr>dimensions = \<lparr>width = 300, height = 200\<rparr>, dragging = False, startPos = 0,
      currentTranslate = - (i * 300), prevTranslate = - (i * 300), currentIndex = Some i,
      sliderRef = Some \<lparr>style_transition =
                           (if i = 0 then Transition_unset else Transform_ease_out (3 / 10)),
                         style_cursor = Cursor_unset, style_transform = Some (- (i * 300))\<rparr>,
      animationRef = None, pendingFrames = [], nextHandle = 1, calls = []\<rparr>"
  by (simp add: at_rest_def negative_props_def slider_defs)

section \<open>Position by index\<close>

text \<open>
  C6. For every index \<open>i\<close> and width \<open>w\<close>, \<open>setPositionByIndex w\<close> makes both
  \<open>currentTranslate\<close> and \<open>prevTranslate\<close> equal to \<open>i * - w\<close>, and a second call with the
  same index and width leaves the whole state, the rendered transform included, as the
  first call left it.
\<close>

theorem setPositionByIndex_roundtrip:
  "currentTranslate (setPositionByIndex w (s\<lparr>currentIndex := Some i\<rparr>)) = i * - w
   \<and> prevTranslate (setPositionByIndex w (s\<lparr>currentIndex := Some i\<rparr>)) = i * - w
   \<and> currentIndex (setPositionByIndex w (s\<lparr>currentIndex := Some i\<rparr>)) = Some i
   \<and> setPositionByIndex w (setPositionByIndex w (s\<lparr>currentIndex := Some i\<rparr>))
       = setPositionByIndex w (s\<lparr>currentIndex := Some i\<rparr>)"
  by (simp add: setPositionByIndex_twice)

section \<open>Pointer move\<close>

text \<open>
  C8. For every pointer-move event: if \<open>dragging\<close> is false the handler changes nothing;
  if it is true the handler sets \<open>currentTranslate\<close> to
  \<open>prevTranslate + (currentPointerX - startPointerX)\<close>; it never modifies
  \<open>prevTranslate\<close>, the index or the \<open>dragging\<close> flag.
\<close>

theorem touchMove_spec:
  "touchMove x s
     = (if dragging s then s\<lparr>currentTranslate := prevTranslate s + (x - startPos s)\<rparr> else s)
   \<and> prevTranslate (touchMove x s) = prevTranslate s
   \<and> currentIndex (touchMove x s) = currentIndex s
   \<and> dragging (touchMove x s) = dragging s"
  by (simp add: touchMove_def algebra_simps)

section \<open>Snap on release\<close>

text \<open>
  C1, as stated, for every threshold: false. With the threshold \<open>- 5\<close> and no movement
  both conditions of \<open>touchEnd\<close> hold at once. On pane 1 of 5 the claim's first clause
  (and \<open>snapOnRelease\<close> as the specification words it) increments the index to 2, the
  code increments and then decrements it, leaving 1; on the last pane, 4, the claim's
  last clause leaves the index at 4, the code decrements it to 3.
\<close>

theorem touchEnd_snap_negative_threshold_counterexample:
  "currentTranslate (at_rest 1) - prevTranslate (at_rest 1) < - threshHold negative_props
   \<and> toNumber (currentIndex (at_rest 1)) < int (children_length negative_props) - 1
   \<and> snapOnRelease_spec 5 1 0 (- 5) = 2
   \<and> currentIndex (snd (touchEnd negative_props (at_rest 1))) = Some 1
   \<and> currentTranslate (at_rest 4) - prevTranslate (at_rest 4) < - threshHold negative_props
   \<and> currentIndex (at_rest 4) = Some (int (children_length negative_props) - 1)
   \<and> currentIndex (snd (touchEnd negative_props (at_rest 4))) = Some 3"
  by (simp add: touchEnd_fields snap_index_def snapOnRelease_spec_def at_rest_eval
        negative_props_def default_props_def)

text \<open>
  C1, amended to non-negative thresholds. For every index \<open>i\<close>, every movement
  \<open>movedBy = currentTranslate - prevTranslate\<close> and every threshold \<open>\<ge> 0\<close>, the index after
  \<open>touchEnd\<close> is \<open>i + 1\<close> when \<open>movedBy < - threshold\<close> and \<open>i < N - 1\<close>, else \<open>i - 1\<close>
  when \<open>movedBy > threshold\<close> and \<open>i > 0\<close>, else \<open>i\<close>. In particular a movement with
  \<open>\<bar>movedBy\<bar> \<le> threshold\<close> leaves the index unchanged, a movement \<open>> threshold\<close> at
  index 0 leaves it at 0, and a movement \<open>< - threshold\<close> at index \<open>N - 1\<close> leaves it at
  \<open>N - 1\<close>.
\<close>

theorem touchEnd_snap:
  assumes "0 \<le> threshHold p" and "currentIndex s = Some i"
  shows "currentIndex (snd (touchEnd p s))
           = Some (snapOnRelease_spec (int (children_length p)) i
                     (currentTranslate s - prevTranslate s) (threshHold p))
         \<and> (\<bar>currentTranslate s - prevTranslate s\<bar> \<le> threshHold p
              \<longrightarrow> currentIndex (snd (touchEnd p s)) = Some i)
         \<and> (currentTranslate s - prevTranslate s > threshHold p \<and> i = 0
              \<longrightarrow> currentIndex (snd (touchEnd p s)) = Some 0)
         \<and> (currentTranslate s - prevTranslate s < - threshHold p
              \<and> i = int (children_length p) - 1
              \<longrightarrow> currentIndex (snd (touchEnd p s)) = Some (int (children_length p) - 1))"
  using assms by (simp add: touchEnd_fields snap_index_spec snapOnRelease_spec_def)

theorem touchEnd_snap_witness:
  "0 \<le> threshHold (scenario_props (Some 1)) \<and> currentIndex mid_drag = Some 1
   \<and> currentTranslate mid_drag - prevTranslate mid_drag = - 150
   \<and> currentIndex (snd (touchEnd (scenario_props (Some 1)) mid_drag)) = Some 2"
  using touchEnd_snap [of "scenario_props (Some 1)" mid_drag 1]
  by (simp add: mid_drag_eval scenario_props_def default_props_def snapOnRelease_spec_def)

text \<open>
  C10. For every non-negative threshold the two conditions of \<open>touchEnd\<close> exclude each
  other, one release moves the index by at most one, and an index in \<open>[0, N - 1]\<close> stays
  there.
\<close>

theorem touchEnd_index_step:
  assumes "0 \<le> threshHold p" and "currentIndex s = Some i"
  shows "\<not> (currentTranslate s - prevTranslate s < - threshHold p
            \<and> currentTranslate s - prevTranslate s > threshHold p)
         \<and> (currentIndex (snd (touchEnd p s)) = Some i
              \<or> currentIndex (snd (touchEnd p s)) = Some (i + 1)
              \<or> currentIndex (snd (touchEnd p s)) = Some (i - 1))
         \<and> \<bar>toNumber (currentIndex (snd (touchEnd p s))) - i\<bar> \<le> 1
         \<and> (0 \<le> i \<and> i \<le> int (children_length p) - 1
              \<longrightarrow> currentIndex (snd (touchEnd p s)) \<noteq> None
                  \<and> 0 \<le> toNumber (currentIndex (snd (touchEnd p s)))
                  \<and> toNumber (currentIndex (snd (touchEnd p s))) \<le> int (children_length p) - 1)"
proof -
  let ?m = "currentTranslate s - prevTranslate s"
  have idx: "currentIndex (snd (touchEnd p s)) = snap_index p ?m (Some i)"
    using assms(2) by (simp add: touchEnd_fields)
  have excl: "\<not> (?m < - threshHold p \<and> ?m > threshHold p)"
    using assms(1) by arith
  have near: "snap_index p ?m (Some i) = Some i \<or> snap_index p ?m (Some i) = Some (i + 1)
      \<or> snap_index p ?m (Some i) = Some (i - 1)"
    by (rule snap_index_near)
  then have dist: "\<bar>toNumber (snap_index p ?m (Some i)) - i\<bar> \<le> 1"
    by auto
  have some: "snap_index p ?m (Some i) \<noteq> None"
    using near by auto
  show ?thesis
    using excl near dist some snap_index_range [of i p ?m] by (simp add: idx)
qed

theorem touchEnd_index_step_witness:
  "0 \<le> threshHold (scenario_props (Some 1)) \<and> currentIndex mid_drag = Some 1
   \<and> (0::int) \<le> 1 \<and> (1::int) \<le> int (children_length (scenario_props (Some 1))) - 1
   \<and> currentIndex (snd (touchEnd (scenario_props (Some 1)) mid_drag)) \<noteq> None
   \<and> \<bar>toNumber (currentIndex (snd (touchEnd (scenario_props (Some 1)) mid_drag))) - 1\<bar> \<le> 1
   \<and> toNumber (currentIndex (snd (touchEnd (scenario_props (Some 1)) mid_drag))) \<le> 4"
  using touchEnd_index_step [of "scenario_props (Some 1)" mid_drag 1]
  by (simp add: mid_drag_eval scenario_props_def default_props_def)

section \<open>Keyboard\<close>

lemma handleKeyDown_index:
  "currentIndex (handleKeyDown key p s) =
     (if key = ''ArrowRight''
      then (if toNumber (currentIndex s) < int (children_length p) - 1
            then Some (toNumber (currentIndex s) + 1) else currentIndex s)
      else if key = ''ArrowLeft''
      then (if toNumber (currentIndex s) > 0
            then Some (toNumber (currentIndex s) - 1) else currentIndex s)
      else currentIndex s)"
  by (simp add: handleKeyDown_def Let_def)

lemma handleKeyDown_position:
  "currentTranslate (handleKeyDown key p s)
     = toNumber (currentIndex (handleKeyDown key p s)) * - width (dimensions s)"
  "prevTranslate (handleKeyDown key p s)
     = toNumber (currentIndex (handleKeyDown key p s)) * - width (dimensions s)"
  "rendered (handleKeyDown key p s)"
  "dragging (handleKeyDown key p s) = dragging s"
  "dimensions (handleKeyDown key p s) = dimensions s"
  by (simp_all add: handleKeyDown_def Let_def)

lemma handleKeyDown_calls:
  assumes "key = ''ArrowRight'' \<or> key = ''ArrowLeft''"
  shows "calls (handleKeyDown key p s)
           = calls s @ (if onSlideStart p then [SlideStart (currentIndex s)] else [])
              @ (if onSlideComplete p
                 then [SlideComplete (currentIndex (handleKeyDown key p s))] else [])"
  using assms
  by (auto simp add: handleKeyDown_def Let_def call_onSlideStart_def call_onSlideComplete_def)

lemma handleKeyDown_other:
  "key \<noteq> ''ArrowRight'' \<Longrightarrow> key \<noteq> ''ArrowLeft'' \<Longrightarrow>
   handleKeyDown key p s = setPositionByIndex_default s"
  by (simp add: handleKeyDown_def Let_def)

text \<open>
  C5. For every press of \<open>ArrowRight\<close> or \<open>ArrowLeft\<close>: \<open>onSlideStart\<close>, if supplied, is
  invoked with the index before the press; the index is incremented (\<open>ArrowRight\<close>, only
  if it is below \<open>N - 1\<close>) or decremented (\<open>ArrowLeft\<close>, only if it is above 0);
  \<open>onSlideComplete\<close>, if supplied, is invoked with the index after the press; and
  \<open>setPositionByIndex\<close> puts both translates at the offset of the new index and renders
  it. In particular, where the index does not move, both callbacks still fire, with the
  same unchanged index.
\<close>

theorem handleKeyDown_arrow:
  assumes "key = ''ArrowRight'' \<or> key = ''ArrowLeft''"
  shows "currentIndex (handleKeyDown key p s) =
           (if key = ''ArrowRight''
            then (if toNumber (currentIndex s) < int (children_length p) - 1
                  then Some (toNumber (currentIndex s) + 1) else currentIndex s)
            else (if toNumber (currentIndex s) > 0
                  then Some (toNumber (currentIndex s) - 1) else currentIndex s))
         \<and> calls (handleKeyDown key p s)
             = calls s @ (if onSlideStart p then [SlideStart (currentIndex s)] else [])
                @ (if onSlideComplete p
                   then [SlideComplete (currentIndex (handleKeyDown key p s))] else [])
         \<and> currentTranslate (handleKeyDown key p s)
             = toNumber (currentIndex (handleKeyDown key p s)) * - width (dimensions s)
         \<and> prevTranslate (handleKeyDown key p s)
             = toNumber (currentIndex (handleKeyDown key p s)) * - width (dimensions s)
         \<and> rendered (handleKeyDown key p s)
         \<and> (currentIndex (handleKeyDown key p s) = currentIndex s \<longrightarrow>
              calls (handleKeyDown key p s)
                = calls s @ (if onSlideStart p then [SlideStart (currentIndex s)] else [])
                   @ (if onSlideComplete p then [SlideComplete (currentIndex s)] else []))"
proof -
  have idx: "currentIndex (handleKeyDown key p s) =
           (if key = ''ArrowRight''
            then (if toNumber (currentIndex s) < int (children_length p) - 1
                  then Some (toNumber (currentIndex s) + 1) else currentIndex s)
            else (if toNumber (currentIndex s) > 0
                  then Some (toNumber (currentIndex s) - 1) else currentIndex s))"
    using assms by (auto simp add: handleKeyDown_index)
  have cs: "calls (handleKeyDown key p s)
             = calls s @ (if onSlideStart p then [SlideStart (currentIndex s)] else [])
                @ (if onSlideComplete p
                   then [SlideComplete (currentIndex (handleKeyDown key p s))] else [])"
    using assms by (rule handleKeyDown_calls)
  have same: "currentIndex (handleKeyDown key p s) = currentIndex s \<longrightarrow>
              calls (handleKeyDown key p s)
                = calls s @ (if onSlideStart p then [SlideStart (currentIndex s)] else [])
                   @ (if onSlideComplete p then [SlideComplete (currentIndex s)] else [])"
    using cs by simp
  from idx cs same show ?thesis
    by (simp only: handleKeyDown_position simp_thms)
qed

theorem handleKeyDown_arrow_witness:
  "(''ArrowRight'' = ''ArrowRight'' \<or> ''ArrowRight'' = ''ArrowLeft'')
   \<and> currentIndex last_pane = Some 4
   \<and> currentIndex (handleKeyDown ''ArrowRight'' (scenario_props (Some 4)) last_pane) = Some 4
   \<and> calls (handleKeyDown ''ArrowRight'' (scenario_props (Some 4)) last_pane)
       = [SlideStart (Some 4), SlideComplete (Some 4)]
   \<and> currentTranslate (handleKeyDown ''ArrowRight'' (scenario_props (Some 4)) last_pane)
       = - 1200"
  using handleKeyDown_arrow [of "''ArrowRight''" "scenario_props (Some 4)" last_pane]
  by (simp add: last_pane_eval scenario_props_def default_props_def)

lemma handleKeyDown_other_frame:
  assumes "key \<noteq> ''ArrowRight''" and "key \<noteq> ''ArrowLeft''"
  shows "handleKeyDown key p s = setPositionByIndex_default s"
    and "calls (handleKeyDown key p s) = calls s"
    and "currentIndex (handleKeyDown key p s) = currentIndex s"
    and "dragging (handleKeyDown key p s) = dragging s"
    and "dimensions (handleKeyDown key p s) = dimensions s"
    and "positioned s \<Longrightarrow> rendered s \<Longrightarrow> handleKeyDown key p s = s"
  using assms by (simp_all add: handleKeyDown_other setPositionByIndex_default_id)

lemma shift_mid_drag_eval:
  "handleKeyDown ''Shift'' (scenario_props (Some 1)) mid_drag =
     \<lparr>dimensions = \<lparr>width = 300, height = 200\<rparr>, dragging = True, startPos = 500,
      currentTranslate = - 300, prevTranslate = - 300, currentIndex = Some 1,
      sliderRef = Some \<lparr>style_transition = Transform_ease_out (3 / 10),
                         style_cursor = Grabbing, style_transform = Some (- 300)\<rparr>,
      animationRef = Some 1, pendingFrames = [1], nextHandle = 2,
      calls = [SlideStart (Some 1)]\<rparr>"
  by (simp add: mid_drag_eval slider_defs)

text \<open>
  C3. A key other than \<open>ArrowRight\<close> and \<open>ArrowLeft\<close> invokes no callback and leaves the
  index alone (\<open>handleKeyDown_other_frame\<close>): \<open>transitionOn\<close>, both callbacks and both
  index updates are behind \<open>arrowsPressed\<close> or a test of the key. The final
  \<open>setPositionByIndex()\<close> is behind no test, so the position is recomputed all the same.
  In the middle of the scenario's drag, with \<open>currentTranslate = - 450\<close>, a press of
  \<open>Shift\<close> puts \<open>currentTranslate\<close> back to \<open>- 300\<close>; a release right after it finds
  no movement and stays on pane 1, where the release without the key press goes to
  pane 2.
\<close>

theorem handleKeyDown_other_key_repositions:
  "''Shift'' \<noteq> ''ArrowRight'' \<and> ''Shift'' \<noteq> ''ArrowLeft''
   \<and> currentTranslate mid_drag = - 450
   \<and> currentTranslate (handleKeyDown ''Shift'' (scenario_props (Some 1)) mid_drag) = - 300
   \<and> handleKeyDown ''Shift'' (scenario_props (Some 1)) mid_drag \<noteq> mid_drag
   \<and> currentIndex (snd (touchEnd (scenario_props (Some 1)) mid_drag)) = Some 2
   \<and> currentIndex (snd (touchEnd (scenario_props (Some 1))
         (handleKeyDown ''Shift'' (scenario_props (Some 1)) mid_drag))) = Some 1
   \<and> calls (snd (touchEnd (scenario_props (Some 1))
         (handleKeyDown ''Shift'' (scenario_props (Some 1)) mid_drag)))
       = [SlideStart (Some 1), SlideComplete (Some 1)]"
proof -
  let ?p = "scenario_props (Some 1)"
  have a: "currentTranslate mid_drag = - 450"
    by (simp add: mid_drag_eval)
  have b: "currentTranslate (handleKeyDown ''Shift'' ?p mid_drag) = - 300"
    by (simp add: shift_mid_drag_eval)
  from a b have c: "handleKeyDown ''Shift'' ?p mid_drag \<noteq> mid_drag"
    by auto
  have d: "currentIndex (snd (touchEnd ?p mid_drag)) = Some 2"
    using released_eval by (simp add: released_def)
  let ?s = "handleKeyDown ''Shift'' ?p mid_drag"
  have s: "currentTranslate ?s - prevTranslate ?s = 0" "currentIndex ?s = Some 1"
    "calls ?s = [SlideStart (Some 1)]" "sliderRef ?s \<noteq> None"
    by (simp_all add: shift_mid_drag_eval)
  have p: "threshHold ?p = 100" "children_length ?p = 5" "onSlideComplete ?p"
    by (simp_all add: scenario_props_def default_props_def)
  have e: "currentIndex (snd (touchEnd ?p ?s)) = Some 1"
    by (simp add: touchEnd_fields snap_index_def s p)
  from s(4) have "calls (snd (touchEnd ?p ?s))
      = calls ?s @ (if onSlideComplete ?p
                    then [SlideComplete (currentIndex (snd (touchEnd ?p ?s)))] else [])"
    by (rule touchEnd_calls)
  then have f: "calls (snd (touchEnd ?p ?s)) = [SlideStart (Some 1), SlideComplete (Some 1)]"
    by (simp only: e s p if_True append.simps)
  from a b c d e f show ?thesis
    by simp
qed

section \<open>The committed position\<close>

lemma committed_initial: "committed (initial el)"
  by (simp add: committed_def positioned_def initial_def)

lemma committed_activeIndex_effect: "committed s \<Longrightarrow> committed (activeIndex_effect p s)"
  by (simp add: activeIndex_effect_def committed_def positioned_def)

lemma committed_layout_effect: "committed s \<Longrightarrow> committed (layout_effect d s)"
  by (simp add: layout_effect_def committed_def positioned_def split: option.split)

lemma committed_handleResize: "committed s \<Longrightarrow> committed (handleResize d s)"
  by (simp add: handleResize_def Let_def committed_def positioned_def split: option.split)

lemma committed_handleKeyDown: "committed (handleKeyDown key p s)"
  by (simp add: committed_def positioned_def handleKeyDown_position)

lemma dragging_touchStart: "dragging (touchStart index x p s)"
  by (simp add: touchStart_def requestAnimationFrame_def Let_def split: option.split)

lemma committed_touchStart: "committed (touchStart index x p s)"
  by (simp add: committed_def dragging_touchStart)

lemma committed_touchMove: "committed s \<Longrightarrow> committed (touchMove x s)"
  by (simp add: committed_def touchMove_def)

lemma committed_touchEnd: "committed (snd (touchEnd p s))"
  by (simp add: committed_def positioned_def touchEnd_fields)

lemma committed_mouseLeave: "committed s \<Longrightarrow> committed (snd (mouseLeave p s))"
  by (simp add: mouseLeave_def committed_touchEnd)

lemma committed_animation: "committed s \<Longrightarrow> committed (animation h s)"
  by (simp add: animation_def requestAnimationFrame_def Let_def committed_def positioned_def)

lemma committed_step: "committed s \<Longrightarrow> committed (snd (step p e s))"
  by (cases e)
    (simp_all add: committed_activeIndex_effect committed_layout_effect committed_handleResize
       committed_handleKeyDown committed_touchStart committed_touchMove committed_touchEnd
       committed_mouseLeave committed_animation)

lemma committed_run: "committed s \<Longrightarrow> committed (run pes s)"
proof (induction pes arbitrary: s)
  case Nil
  then show ?case by simp
next
  case (Cons pe pes)
  obtain p e where pe: "pe = (p, e)" by (cases pe)
  from Cons.prems have "committed (snd (step p e s))" by (rule committed_step)
  then have "committed (run pes (snd (step p e s)))" by (rule Cons.IH)
  then show ?case by (simp add: pe)
qed

text \<open>
  C7. The invariant "whenever no drag is open, \<open>currentTranslate = prevTranslate =
  index * - width\<close> for the current index and the stored width" holds at mount, is
  preserved by every event of the slider (effects, resize, key press, pointer down, move,
  up and leave, animation frame), also by a \<open>touchEnd\<close> that throws, and so holds after
  every run of events.
\<close>

theorem committed_invariant:
  assumes "\<not> dragging s \<longrightarrow>
             currentTranslate s = toNumber (currentIndex s) * - width (dimensions s)
             \<and> prevTranslate s = toNumber (currentIndex s) * - width (dimensions s)"
  shows "(\<not> dragging (snd (step p e s)) \<longrightarrow>
            currentTranslate (snd (step p e s))
              = toNumber (currentIndex (snd (step p e s))) * - width (dimensions (snd (step p e s)))
            \<and> prevTranslate (snd (step p e s))
              = toNumber (currentIndex (snd (step p e s))) * - width (dimensions (snd (step p e s))))
         \<and> committed (run pes s)
         \<and> committed (run pes (initial el))"
proof -
  from assms have c: "committed s"
    by (simp add: committed_def positioned_def)
  then have "committed (snd (step p e s))"
    by (rule committed_step)
  moreover from c have "committed (run pes s)"
    by (rule committed_run)
  moreover have "committed (run pes (initial el))"
    by (rule committed_run) (rule committed_initial)
  ultimately show ?thesis
    by (simp add: committed_def positioned_def)
qed

theorem committed_invariant_witness:
  "\<not> dragging last_pane
   \<and> currentTranslate last_pane
       = toNumber (currentIndex last_pane) * - width (dimensions last_pane)
   \<and> prevTranslate last_pane
       = toNumber (currentIndex last_pane) * - width (dimensions last_pane)
   \<and> \<not> dragging (snd (step (scenario_props (Some 4)) (KeyDown ''ArrowLeft'') last_pane))
   \<and> currentIndex (snd (step (scenario_props (Some 4)) (KeyDown ''ArrowLeft'') last_pane))
       = Some 3
   \<and> currentTranslate (snd (step (scenario_props (Some 4)) (KeyDown ''ArrowLeft'') last_pane))
       = - 900
   \<and> prevTranslate (snd (step (scenario_props (Some 4)) (KeyDown ''ArrowLeft'') last_pane))
       = - 900"
proof -
  have pre: "\<not> dragging last_pane \<longrightarrow>
      currentTranslate last_pane
        = toNumber (currentIndex last_pane) * - width (dimensions last_pane)
      \<and> prevTranslate last_pane
        = toNumber (currentIndex last_pane) * - width (dimensions last_pane)"
    by (simp add: last_pane_eval)
  have idx: "currentIndex (snd (step (scenario_props (Some 4)) (KeyDown ''ArrowLeft'') last_pane))
      = Some 3"
    by (simp add: handleKeyDown_index last_pane_eval)
  have drg: "\<not> dragging (snd (step (scenario_props (Some 4)) (KeyDown ''ArrowLeft'') last_pane))"
    by (simp add: handleKeyDown_position last_pane_eval)
  have dm: "dimensions (snd (step (scenario_props (Some 4)) (KeyDown ''ArrowLeft'') last_pane))
      = \<lparr>width = 300, height = 200\<rparr>"
    by (simp add: handleKeyDown_position last_pane_eval)
  from committed_invariant [OF pre, of "scenario_props (Some 4)" "KeyDown ''ArrowLeft''" "[]" None]
  have "currentTranslate (snd (step (scenario_props (Some 4)) (KeyDown ''ArrowLeft'') last_pane))
          = - 900
        \<and> prevTranslate (snd (step (scenario_props (Some 4)) (KeyDown ''ArrowLeft'') last_pane))
          = - 900"
    using drg by (simp only: idx dm) simp
  with idx drg show ?thesis
    by (simp add: last_pane_eval)
qed

section \<open>The external active index\<close>

lemma activeIndex_effect_calls: "calls (activeIndex_effect p s) = calls s"
  by (simp add: activeIndex_effect_def)

lemma activeIndex_effect_same: "activeIndex p = currentIndex s \<Longrightarrow> activeIndex_effect p s = s"
  by (simp add: activeIndex_effect_def)

lemma activeIndex_effect_override:
  assumes "activeIndex p = Some k" and "currentIndex s \<noteq> Some k"
  shows "currentIndex (activeIndex_effect p s) = Some k"
    and "currentTranslate (activeIndex_effect p s) = k * - width (dimensions s)"
    and "prevTranslate (activeIndex_effect p s) = k * - width (dimensions s)"
    and "rendered (activeIndex_effect p s)"
  using assms by (auto simp add: activeIndex_effect_def)

text \<open>
  C2. A non-null external index that differs from the internal one overrides it, without
  a callback (\<open>activeIndex_effect_override\<close>, \<open>activeIndex_effect_calls\<close>). A null
  external index does not leave the internal index alone: the effect compares with
  \<open>!==\<close> only, so at mount with the default props the index \<open>0\<close> is overwritten with
  \<open>null\<close>; and when the effect runs again after a resize, a slider without external
  control that was dragged to pane 1 (translate \<open>- 400\<close>) is put back to \<open>null\<close> and
  translate 0.
\<close>

theorem activeIndex_effect_null_overwrites:
  "activeIndex (default_props 5) = None
   \<and> currentIndex (initial (Some el0)) = Some 0
   \<and> currentIndex (activeIndex_effect (default_props 5) (initial (Some el0))) = None
   \<and> currentIndex uncontrolled_resized = Some 1
   \<and> currentTranslate uncontrolled_resized = - 400
   \<and> currentIndex (activeIndex_effect (default_props 5) uncontrolled_resized) = None
   \<and> currentTranslate (activeIndex_effect (default_props 5) uncontrolled_resized) = 0"
  by (simp add: activeIndex_effect_def uncontrolled_resized_eval default_props_def initial_def)

section \<open>Drag end without a drag\<close>

lemma mouseLeave_idle: "\<not> dragging s \<Longrightarrow> mouseLeave p s = (None, s)"
  by (simp add: mouseLeave_def)

lemma snap_index_still: "0 \<le> threshHold p \<Longrightarrow> snap_index p 0 i = i"
  by (simp add: snap_index_def Let_def)

lemma touchEnd_idle_position:
  assumes "\<not> dragging s" and "committed s" and "0 \<le> threshHold p"
  shows "currentIndex (snd (touchEnd p s)) = currentIndex s"
    and "currentTranslate (snd (touchEnd p s)) = currentTranslate s"
    and "prevTranslate (snd (touchEnd p s)) = prevTranslate s"
  using assms by (simp_all add: committed_def positioned_def touchEnd_fields snap_index_still)

text \<open>
  C4. The \<open>onMouseLeave\<close> handler tests \<open>dragging\<close> before it calls \<open>touchEnd\<close>
  (\<open>mouseLeave_idle\<close>); \<open>touchEnd\<close> itself, the handler of \<open>onMouseUp\<close> and \<open>onTouchEnd\<close>,
  does not. After the scenario's release (\<open>dragging\<close> false, one \<open>onSlideComplete\<close>
  logged) a second \<open>touchEnd\<close> keeps the index and the translates but invokes
  \<open>onSlideComplete\<close> again.
\<close>

theorem touchEnd_idle_fires_onSlideComplete:
  "\<not> dragging released
   \<and> calls released = [SlideStart (Some 1), SlideComplete (Some 2)]
   \<and> fst (touchEnd (scenario_props (Some 2)) released) = None
   \<and> currentIndex (snd (touchEnd (scenario_props (Some 2)) released)) = Some 2
   \<and> calls (snd (touchEnd (scenario_props (Some 2)) released))
       = [SlideStart (Some 1), SlideComplete (Some 2), SlideComplete (Some 2)]"
proof -
  have att: "sliderRef released \<noteq> None"
    by (simp add: released_eval)
  have idx: "currentIndex (snd (touchEnd (scenario_props (Some 2)) released)) = Some 2"
    by (simp add: touchEnd_fields snap_index_def released_eval scenario_props_def
          default_props_def)
  have "onSlideComplete (scenario_props (Some 2))"
    by (simp add: scenario_props_def)
  with touchEnd_calls [OF att, of "scenario_props (Some 2)"] idx show ?thesis
    by (simp add: released_eval)
qed

section \<open>A detached render surface\<close>

lemma touchEnd_detached:
  assumes "sliderRef s = None"
  shows "fst (touchEnd p s) = Some TypeError"
proof -
  from assms have detached: "sliderRef (touchEnd_refs p s) = None"
    by simp
  show ?thesis
    by (simp only: touchEnd_unfold detached option.case fst_conv)
qed

lemma step_attached_no_error: "sliderRef s \<noteq> None \<Longrightarrow> fst (step p e s) = None"
  by (cases e) (simp_all add: mouseLeave_def touchEnd_calls)

lemma step_detached_no_error:
  assumes "sliderRef s = None" and "e \<noteq> TouchEnd" and "e = MouseLeave \<longrightarrow> \<not> dragging s"
  shows "fst (step p e s) = None"
  using assms by (cases e) (simp_all add: mouseLeave_def)

text \<open>
  C9. With a null \<open>sliderRef\<close> the effects, the resize and key handlers, \<open>touchStart\<close>,
  \<open>touchMove\<close> and the frame callback return normally (\<open>step_detached_no_error\<close>):
  each tests the reference first, as \<open>touchStart\<close> does before it sets the cursor.
  \<open>touchEnd\<close> sets the cursor through \<open>sliderRef.current!\<close> and raises a \<open>TypeError\<close>.
\<close>

theorem touchEnd_detached_throws:
  "sliderRef (initial None) = None
   \<and> fst (touchEnd (default_props 5) (initial None)) = Some TypeError
   \<and> fst (step (default_props 5) (TouchStart 0 500) (initial None)) = None"
  by (simp add: touchEnd_detached initial_def)

end
